theory Spec2Isabelle
  imports Complex_Main
begin

section \<open>Values\<close>

text \<open>
  The orchestrator is Python. Its strings are modelled as \<open>string\<close>, one \<open>char\<close> per code
  point below 256. \<open>str.strip()\<close> removes the characters for which \<open>str.isspace()\<close> holds
  and \<open>str.lower()\<close> maps the upper-case letters of that range to their lower-case forms.
\<close>

definition isspace :: "char \<Rightarrow> bool" where
  "isspace c = (c \<in> {CHR 0x09, CHR 0x0A, CHR 0x0B, CHR 0x0C, CHR 0x0D,
                       CHR 0x1C, CHR 0x1D, CHR 0x1E, CHR 0x1F, CHR 0x20, CHR 0x85, CHR 0xA0})"

definition strip :: "string \<Rightarrow> string" where
  "strip s = rev (dropWhile isspace (rev (dropWhile isspace s)))"

definition lower_char :: "char \<Rightarrow> char" where
  "lower_char c = (let n = (of_char c :: nat) in
     if (65 \<le> n \<and> n \<le> 90) \<or> (192 \<le> n \<and> n \<le> 222 \<and> n \<noteq> 215)
     then char_of (n + 32) else c)"

definition lower :: "string \<Rightarrow> string" where
  "lower s = map lower_char s"

text \<open>
  A menu entry arrives from the menu webhook either as a dict with the optional keys
  \<open>name\<close> and \<open>price\<close> or as a bare string (\<open>isinstance(m, dict)\<close> tells them apart).
\<close>

datatype menu_item = MenuDict "string option" "string option" | MenuStr string

text \<open>
  The values the handlers store in the scratchpad, send in payloads and read from webhook
  answers: \<open>None\<close>, a string, or a list of menu entries.
\<close>

datatype sval = VNone | VStr string | VItems "menu_item list"

text \<open>Python truthiness, \<open>a or b\<close>, and \<open>d.get(k)\<close> (absent keys read as \<open>None\<close>).\<close>

fun truthy :: "sval \<Rightarrow> bool" where
  "truthy VNone = False"
| "truthy (VStr s) = (s \<noteq> [])"
| "truthy (VItems xs) = (xs \<noteq> [])"

definition or_val :: "sval \<Rightarrow> sval \<Rightarrow> sval" where
  "or_val a b = (if truthy a then a else b)"

definition get :: "(string \<rightharpoonup> sval) \<Rightarrow> string \<Rightarrow> sval" where
  "get d k = (case d k of None \<Rightarrow> VNone | Some v \<Rightarrow> v)"

definition opt_str :: "string option \<Rightarrow> sval" where
  "opt_str x = (case x of None \<Rightarrow> VNone | Some s \<Rightarrow> VStr s)"

text \<open>
  \<open>for m in menu_items\<close>: a list yields its entries, a string yields its characters as
  one-character strings. The loops below only iterate a truthy value, so \<open>None\<close> is never
  iterated.
\<close>

fun iterate :: "sval \<Rightarrow> menu_item list" where
  "iterate VNone = []"
| "iterate (VStr s) = map (\<lambda>c. MenuStr [c]) s"
| "iterate (VItems xs) = xs"

section \<open>SessionContext (session\_context.py)\<close>

text \<open>
  A \<open>datetime\<close> is a count of microseconds since the epoch and a \<open>timedelta\<close> a count of
  microseconds: Python subtracts and compares both exactly.
\<close>

type_synonym datetime = int

datatype role = User | Assistant | System

record message =
  role :: role
  msg_text :: string
  timestamp :: datetime

record session_meta =
  channel :: string
  user_id :: string
  session_id :: string
  created_at :: datetime
  last_seen_at :: datetime

record session_state =
  flow :: "string option"
  step :: "string option"
  scratchpad :: "string \<rightharpoonup> sval"
  session_done :: bool

record short_term_memory =
  history :: "message list"
  turn_count :: int
  last_user_message_at :: "datetime option"

record session_context =
  session :: session_meta
  state :: session_state
  short_term :: short_term_memory

definition new :: "string \<Rightarrow> string \<Rightarrow> string \<Rightarrow> datetime \<Rightarrow> session_context" where
  "new ch uid sid created =
     \<lparr> session = \<lparr> channel = ch, user_id = uid, session_id = sid,
                    created_at = created, last_seen_at = created \<rparr>,
       state = \<lparr> flow = None, step = None, scratchpad = Map.empty, session_done = False \<rparr>,
       short_term = \<lparr> history = [], turn_count = 0, last_user_message_at = None \<rparr> \<rparr>"

definition touch :: "session_context \<Rightarrow> datetime \<Rightarrow> session_context" where
  "touch ctx now = ctx\<lparr> session := (session ctx)\<lparr> last_seen_at := now \<rparr> \<rparr>"

definition append_user_message :: "session_context \<Rightarrow> string \<Rightarrow> datetime \<Rightarrow> session_context" where
  "append_user_message ctx txt ts =
     (let msg = \<lparr> role = User, msg_text = txt, timestamp = ts \<rparr>;
          ctx1 = ctx\<lparr> short_term := (short_term ctx)\<lparr> history := history (short_term ctx) @ [msg] \<rparr> \<rparr>;
          ctx2 = ctx1\<lparr> short_term := (short_term ctx1)\<lparr> turn_count := turn_count (short_term ctx1) + 1 \<rparr> \<rparr>;
          ctx3 = ctx2\<lparr> short_term := (short_term ctx2)\<lparr> last_user_message_at := Some ts \<rparr> \<rparr>
      in touch ctx3 ts)"

definition append_assistant_message :: "session_context \<Rightarrow> string \<Rightarrow> datetime \<Rightarrow> session_context" where
  "append_assistant_message ctx txt ts =
     (let msg = \<lparr> role = Assistant, msg_text = txt, timestamp = ts \<rparr>;
          ctx1 = ctx\<lparr> short_term := (short_term ctx)\<lparr> history := history (short_term ctx) @ [msg] \<rparr> \<rparr>
      in touch ctx1 ts)"

section \<open>MemoryStore (memory\_store.py)\<close>

type_synonym session_key = "string \<times> string \<times> string"

type_synonym store = "session_key \<rightharpoonup> session_context"

definition timedelta_minutes :: "int \<Rightarrow> int" where
  "timedelta_minutes m = m * 60000000"

definition key :: "string \<Rightarrow> string \<Rightarrow> string \<Rightarrow> session_key" where
  "key ch uid sid = (ch, uid, sid)"

text \<open>
  \<open>load\<close> reads the clock itself (\<open>datetime.now\<close>); the reading is the argument \<open>now\<close>.
  It returns the record found, or \<open>None\<close>, together with the store, from which an expired
  record has been popped.
\<close>

definition load :: "int \<Rightarrow> store \<Rightarrow> datetime \<Rightarrow> string \<Rightarrow> string \<Rightarrow> string
    \<Rightarrow> session_context option \<times> store" where
  "load ttl st now ch uid sid =
     (let k = key ch uid sid in
      case st k of
        None \<Rightarrow> (None, st)
      | Some ctx \<Rightarrow>
          if now - last_seen_at (session ctx) > ttl then (None, st(k := None))
          else (Some ctx, st))"

definition save :: "store \<Rightarrow> session_context \<Rightarrow> store" where
  "save st ctx =
     st(key (channel (session ctx)) (user_id (session ctx)) (session_id (session ctx)) \<mapsto> ctx)"

section \<open>MenuValidator (menu\_validator.py)\<close>

text \<open>
  \<open>difflib.SequenceMatcher(None, a, b).ratio()\<close> belongs to the Python library; it is the
  parameter \<open>ratio\<close>. It returns a float, and floats are compared exactly, so a ratio and
  the threshold are modelled by the rational numbers they denote.
\<close>

datatype error = KeyError | RouterError | TransportError | HTTPStatusError

text \<open>The stripped name of a menu entry: \<open>(m.get("name") or "").strip()\<close> or \<open>str(m).strip()\<close>.\<close>

fun entry_name :: "menu_item \<Rightarrow> string" where
  "entry_name (MenuDict n p) = strip (case n of None \<Rightarrow> [] | Some s \<Rightarrow> s)"
| "entry_name (MenuStr s) = strip s"

text \<open>The first loop: \<open>name_to_item\<close> and \<open>names_lower\<close>, entries without a name skipped.\<close>

fun build_lookup :: "menu_item list \<Rightarrow> (string \<rightharpoonup> menu_item) \<times> string list
    \<Rightarrow> (string \<rightharpoonup> menu_item) \<times> string list" where
  "build_lookup [] acc = acc"
| "build_lookup (m # ms) (name_to_item, names_lower) =
     (let name = entry_name m in
      if name = [] then build_lookup ms (name_to_item, names_lower)
      else build_lookup ms (name_to_item(lower name \<mapsto> m), names_lower @ [lower name]))"

text \<open>The fuzzy loop over \<open>names_lower\<close>, on the pair \<open>(best_match, best_ratio)\<close>.\<close>

fun fuzzy_loop :: "(string \<Rightarrow> string \<Rightarrow> rat) \<Rightarrow> string \<Rightarrow> string list
    \<Rightarrow> string option \<times> rat \<Rightarrow> string option \<times> rat" where
  "fuzzy_loop ratio cand_lower [] acc = acc"
| "fuzzy_loop ratio cand_lower (name_lower # rest) (best_match, best_ratio) =
     (if ratio cand_lower name_lower > best_ratio
      then fuzzy_loop ratio cand_lower rest (Some name_lower, ratio cand_lower name_lower)
      else fuzzy_loop ratio cand_lower rest (best_match, best_ratio))"

text \<open>
  The body of the loop over \<open>ordered_items\<close>, for one raw line: skipped, appended to
  \<open>valid_items\<close>, appended to \<open>unknown_items\<close>, or a \<open>KeyError\<close> from \<open>name_to_item[best_match]\<close>.
\<close>

datatype line_result = Skipped | Valid menu_item | Unknown string | Raises error

definition match_line :: "(string \<Rightarrow> string \<Rightarrow> rat) \<Rightarrow> rat \<Rightarrow> (string \<rightharpoonup> menu_item)
    \<Rightarrow> string list \<Rightarrow> string \<Rightarrow> line_result" where
  "match_line ratio fuzzy_threshold name_to_item names_lower raw =
     (let candidate = strip raw in
      if candidate = [] then Skipped
      else let cand_lower = lower candidate in
        case name_to_item cand_lower of
          Some m \<Rightarrow> Valid m
        | None \<Rightarrow>
            (case fuzzy_loop ratio cand_lower names_lower (None, 0) of
               (Some best_match, best_ratio) \<Rightarrow>
                 if best_match \<noteq> [] \<and> best_ratio \<ge> fuzzy_threshold
                 then (case name_to_item best_match of
                         Some m \<Rightarrow> Valid m
                       | None \<Rightarrow> Raises KeyError)
                 else Unknown candidate
             | (None, best_ratio) \<Rightarrow> Unknown candidate))"

fun validate_loop :: "(string \<Rightarrow> line_result) \<Rightarrow> string list \<Rightarrow> menu_item list \<times> string list
    \<Rightarrow> error + menu_item list \<times> string list" where
  "validate_loop body [] acc = Inr acc"
| "validate_loop body (raw # rest) (valid_items, unknown_items) =
     (case body raw of
        Skipped \<Rightarrow> validate_loop body rest (valid_items, unknown_items)
      | Valid m \<Rightarrow> validate_loop body rest (valid_items @ [m], unknown_items)
      | Unknown c \<Rightarrow> validate_loop body rest (valid_items, unknown_items @ [c])
      | Raises e \<Rightarrow> Inl e)"

text \<open>
  \<open>ctx.state.scratchpad.get("menu_items") or []\<close>, the cached menu as \<open>validate_items\<close> and
  the order handler read it.
\<close>

definition cached_menu :: "session_context \<Rightarrow> sval" where
  "cached_menu ctx = or_val (get (scratchpad (state ctx)) ''menu_items'') (VItems [])"

text \<open>
  \<open>validate_items\<close> takes the session context and returns it with its result, as every
  operation on the context does here; the source has no assignment to \<open>ctx\<close> in it.
\<close>

definition validate_items :: "(string \<Rightarrow> string \<Rightarrow> rat) \<Rightarrow> rat \<Rightarrow> string list \<Rightarrow> session_context
    \<Rightarrow> (error + menu_item list \<times> string list) \<times> session_context" where
  "validate_items ratio fuzzy_threshold ordered_items ctx =
     (let menu_items = cached_menu ctx in
      if \<not> truthy menu_items then (Inr ([], ordered_items), ctx)
      else
        let (name_to_item, names_lower) = build_lookup (iterate menu_items) (Map.empty, [])
        in (validate_loop (match_line ratio fuzzy_threshold name_to_item names_lower)
              ordered_items ([], []), ctx))"

text \<open>
  For concrete runs the ratio is given by a table of the values \<open>difflib\<close> computes for
  the pairs that occur, and \<open>0\<close> elsewhere.
\<close>

definition table_ratio :: "((string \<times> string) \<times> rat) list \<Rightarrow> string \<Rightarrow> string \<Rightarrow> rat" where
  "table_ratio tab a b = (case map_of tab (a, b) of None \<Rightarrow> 0 | Some r \<Rightarrow> r)"

section \<open>N8NGateway (n8n\_gateway.py)\<close>

text \<open>
  A payload is the dict a handler sends. Of the dict a webhook answers the handlers read
  six keys; an answer is the record of what they read: \<open>data.get("menu")\<close>,
  \<open>data.get("items")\<close>, \<open>bool(data.get("verified", False))\<close>, the value under
  \<open>normalized_phone\<close> when the key is present, \<open>data.get("order_id")\<close> and \<open>data.get("eta")\<close>.
\<close>

type_synonym payload = "(string \<times> sval) list"

record n8n_response =
  resp_menu :: sval
  resp_items :: sval
  resp_verified :: bool
  resp_normalized_phone :: "sval option"
  resp_order_id :: sval
  resp_eta :: sval

text \<open>
  \<open>{"error": "url_not_configured"}\<close> and \<open>{"raw": resp.text}\<close> hold none of the six keys.
\<close>

definition no_keys :: n8n_response where
  "no_keys = \<lparr> resp_menu = VNone, resp_items = VNone, resp_verified = False,
               resp_normalized_phone = None, resp_order_id = VNone, resp_eta = VNone \<rparr>"

text \<open>
  What \<open>httpx\<close> does with one request: \<open>client.post\<close> raises (no connection, timeout),
  \<open>raise_for_status\<close> raises, or the body is JSON or is not.
\<close>

datatype http_outcome = RequestError | StatusError | JsonBody n8n_response | TextBody

record n8n_gateway =
  menu_url :: "string option"
  phone_url :: "string option"
  order_url :: "string option"

definition post :: "(string \<Rightarrow> payload \<Rightarrow> http_outcome) \<Rightarrow> string option \<Rightarrow> payload
    \<Rightarrow> error + n8n_response" where
  "post http url pl =
     (case url of
        None \<Rightarrow> Inr no_keys
      | Some u \<Rightarrow>
          if u = [] then Inr no_keys
          else (case http u pl of
                  RequestError \<Rightarrow> Inl TransportError
                | StatusError \<Rightarrow> Inl HTTPStatusError
                | JsonBody d \<Rightarrow> Inr d
                | TextBody \<Rightarrow> Inr no_keys))"

definition get_menu :: "n8n_gateway \<Rightarrow> (string \<Rightarrow> payload \<Rightarrow> http_outcome) \<Rightarrow> payload
    \<Rightarrow> error + n8n_response" where
  "get_menu gw http pl = post http (menu_url gw) pl"

definition verify_phone :: "n8n_gateway \<Rightarrow> (string \<Rightarrow> payload \<Rightarrow> http_outcome) \<Rightarrow> payload
    \<Rightarrow> error + n8n_response" where
  "verify_phone gw http pl = post http (phone_url gw) pl"

definition place_order :: "n8n_gateway \<Rightarrow> (string \<Rightarrow> payload \<Rightarrow> http_outcome) \<Rightarrow> payload
    \<Rightarrow> error + n8n_response" where
  "place_order gw http pl = post http (order_url gw) pl"

section \<open>Requests, responses, intents (models.py)\<close>

record orchestrator_request =
  req_channel :: string
  req_user_id :: string
  req_session_id :: string
  req_text :: string

record intent_data =
  intent :: string
  phone :: "string option"
  address :: "string option"
  items :: "string list"
  intent_notes :: "string option"

text \<open>
  A reply is one of the texts the handlers build, kept with the values formatted into it:
  \<^item> \<open>MenuUnavailable\<close>: "Our menu system is temporarily unavailable, but I can still take
    your order. What would you like to eat?"
  \<^item> \<open>MenuListing lines\<close>: "Here are some options on the menu:", a line per entry (name and,
    when truthy, price), "What would you like to order?"
  \<^item> \<open>AskPhoneAgain\<close>: "I didn't catch your phone number. Can you say it again?"
  \<^item> \<open>PhoneVerified p\<close>: "Got it. I've verified your number as p. What is your delivery
    address?"
  \<^item> \<open>PhoneUnverified p\<close>: "I heard your phone as p, but I couldn't verify it. ..."
  \<^item> \<open>AskAddressAgain\<close>: "I didn't catch your address. Can you please repeat it?"
  \<^item> \<open>AddressConfirm a\<close>: "Thanks, I have your address as: a. Would you like me to place
    the order now?"
  \<^item> \<open>UnknownItems unknown suggestions\<close>: "I couldn't find these items in our menu:", the
    unknown items, up to 8 menu lines when a menu is cached, "Can you please choose from
    the menu items?"
  \<^item> \<open>OrderPlaced order_id eta\<close>: "I've placed your order", " with reference ID ..." when
    the order id is truthy, ". Estimated delivery time is ...." when the eta is truthy,
    " Thank you for ordering! Enjoy your meal."
  \<^item> \<open>Fallback\<close>: "I can help you with food orders, menus, and delivery details. What
    would you like to eat today?"
  \<^item> \<open>NotUnderstood\<close>: "I'm not sure I understood that. I can help you with food
    ordering. ..."
\<close>

datatype reply =
    MenuUnavailable
  | MenuListing "(string \<times> string option) list"
  | AskPhoneAgain
  | PhoneVerified sval
  | PhoneUnverified sval
  | AskAddressAgain
  | AddressConfirm sval
  | UnknownItems "string list" "(string \<times> string option) list"
  | OrderPlaced "sval option" "sval option"
  | Fallback
  | NotUnderstood

record memory_snapshot =
  snap_flow :: "string option"
  snap_step :: "string option"
  snap_scratchpad :: "string \<rightharpoonup> sval"
  snap_last_user_message_at :: "datetime option"
  snap_turn_count :: int

definition from_ctx :: "session_context \<Rightarrow> memory_snapshot" where
  "from_ctx ctx =
     \<lparr> snap_flow = flow (state ctx), snap_step = step (state ctx),
       snap_scratchpad = scratchpad (state ctx),
       snap_last_user_message_at = last_user_message_at (short_term ctx),
       snap_turn_count = turn_count (short_term ctx) \<rparr>"

record orchestrator_response =
  reply_text :: reply
  response_done :: bool
  response_snapshot :: memory_snapshot

section \<open>AgentCore (agent\_core.py)\<close>

text \<open>
  The collaborators of an \<open>AgentCore\<close> that do not change between turns: the store's
  time-to-live, the validator's threshold, \<open>difflib\<close>'s ratio and the gateway with its
  three URLs. What a turn meets outside the process is its \<open>world\<close>: the clock as
  \<open>handle\<close> and as \<open>load\<close> read it, the intent router (the language model's answer, or its
  client raising) and the HTTP client. The POS and analytics gateways post inside
  \<open>try: ... except Exception: pass\<close>, return nothing and write nothing to the context; they
  have no part in the model.
\<close>

record agent_core =
  store_ttl :: int
  fuzzy_threshold :: rat
  sm_ratio :: "string \<Rightarrow> string \<Rightarrow> rat"
  n8n :: n8n_gateway

record world =
  clock_handle :: datetime
  clock_load :: datetime
  route :: "string \<Rightarrow> session_context \<Rightarrow> error + intent_data"
  http_post :: "string \<Rightarrow> payload \<Rightarrow> http_outcome"

definition set_scratchpad :: "session_context \<Rightarrow> string \<Rightarrow> sval \<Rightarrow> session_context" where
  "set_scratchpad ctx k v =
     ctx\<lparr> state := (state ctx)\<lparr> scratchpad := (scratchpad (state ctx))(k \<mapsto> v) \<rparr> \<rparr>"

text \<open>One line of a menu listing: the name shown and the price, when it is truthy.\<close>

fun menu_line :: "menu_item \<Rightarrow> string \<times> string option" where
  "menu_line (MenuDict n p) =
     ((case n of None \<Rightarrow> ''Unnamed item'' | Some s \<Rightarrow> if s = [] then ''Unnamed item'' else s),
      (case p of None \<Rightarrow> None | Some s \<Rightarrow> if s = [] then None else Some s))"
| "menu_line (MenuStr s) = (s, None)"

text \<open>
  A handler takes the context and returns it, as changed so far, with its reply or with
  the exception that left it.
\<close>

definition handle_get_menu :: "agent_core \<Rightarrow> world \<Rightarrow> intent_data \<Rightarrow> session_context
    \<Rightarrow> (error + reply) \<times> session_context" where
  "handle_get_menu core w idata ctx =
     (let pl = [(''session_id'', VStr (session_id (session ctx))),
                (''user_id'', VStr (user_id (session ctx))),
                (''channel'', VStr (channel (session ctx))),
                (''intent'', VStr ''get_menu''),
                (''notes'', opt_str (intent_notes idata))] in
      case get_menu (n8n core) (http_post w) pl of
        Inl e \<Rightarrow> (Inl e, ctx)
      | Inr data \<Rightarrow>
          let menu_items = or_val (or_val (resp_menu data) (resp_items data)) (VItems []) in
          if \<not> truthy menu_items then (Inr MenuUnavailable, ctx)
          else
            let ctx1 = set_scratchpad ctx ''menu_items'' menu_items
            in (Inr (MenuListing (map menu_line (take 10 (iterate menu_items)))), ctx1))"

definition handle_phone :: "agent_core \<Rightarrow> world \<Rightarrow> intent_data \<Rightarrow> session_context
    \<Rightarrow> (error + reply) \<times> session_context" where
  "handle_phone core w idata ctx =
     (let ph = or_val (opt_str (phone idata)) (get (scratchpad (state ctx)) ''phone'') in
      if \<not> truthy ph then (Inr AskPhoneAgain, ctx)
      else
        let pl = [(''session_id'', VStr (session_id (session ctx))),
                  (''user_id'', VStr (user_id (session ctx))),
                  (''intent'', VStr ''provide_phone''),
                  (''phone'', ph)] in
        case verify_phone (n8n core) (http_post w) pl of
          Inl e \<Rightarrow> (Inl e, ctx)
        | Inr data \<Rightarrow>
            let verified = resp_verified data;
                normalized = (case resp_normalized_phone data of None \<Rightarrow> ph | Some v \<Rightarrow> v);
                ctx1 = set_scratchpad ctx ''phone'' normalized
            in if verified then (Inr (PhoneVerified normalized), ctx1)
               else (Inr (PhoneUnverified normalized), ctx1))"

definition handle_address :: "intent_data \<Rightarrow> session_context \<Rightarrow> (error + reply) \<times> session_context" where
  "handle_address idata ctx =
     (let addr = or_val (opt_str (address idata)) (get (scratchpad (state ctx)) ''address'') in
      if \<not> truthy addr then (Inr AskAddressAgain, ctx)
      else (Inr (AddressConfirm addr), set_scratchpad ctx ''address'' addr))"

definition handle_order :: "agent_core \<Rightarrow> world \<Rightarrow> intent_data \<Rightarrow> session_context
    \<Rightarrow> (error + reply) \<times> session_context" where
  "handle_order core w idata ctx =
     (let ordered_items = items idata;
          ph = get (scratchpad (state ctx)) ''phone'';
          addr = get (scratchpad (state ctx)) ''address'' in
      case validate_items (sm_ratio core) (fuzzy_threshold core) ordered_items ctx of
        (Inl e, ctx1) \<Rightarrow> (Inl e, ctx1)
      | (Inr (valid_menu_items, unknown_items), ctx1) \<Rightarrow>
          if unknown_items \<noteq> [] then
            let menu_items = cached_menu ctx1 in
            (Inr (UnknownItems unknown_items
                    (if truthy menu_items then map menu_line (take 8 (iterate menu_items)) else [])),
             ctx1)
          else
            let pl = [(''session_id'', VStr (session_id (session ctx1))),
                      (''user_id'', VStr (user_id (session ctx1))),
                      (''intent'', VStr ''place_order''),
                      (''items'', VItems valid_menu_items),
                      (''notes'', opt_str (intent_notes idata)),
                      (''phone'', ph),
                      (''address'', addr)] in
            case place_order (n8n core) (http_post w) pl of
              Inl e \<Rightarrow> (Inl e, ctx1)
            | Inr data \<Rightarrow>
                let oid = resp_order_id data;
                    eta = resp_eta data;
                    ctx2 = set_scratchpad ctx1 ''last_order_id'' oid;
                    ctx3 = set_scratchpad ctx2 ''last_order_items'' (VItems valid_menu_items);
                    ctx4 = ctx3\<lparr> state := (state ctx3)\<lparr> session_done := True \<rparr> \<rparr>
                in (Inr (OrderPlaced (if truthy oid then Some oid else None)
                                     (if truthy eta then Some eta else None)), ctx4))"

text \<open>
  The payload \<open>_handle_order\<close> sends for the matched items, written from the context the
  handler is given.
\<close>

definition order_payload :: "session_context \<Rightarrow> intent_data \<Rightarrow> menu_item list \<Rightarrow> payload" where
  "order_payload ctx idata valid_menu_items =
     [(''session_id'', VStr (session_id (session ctx))),
      (''user_id'', VStr (user_id (session ctx))),
      (''intent'', VStr ''place_order''),
      (''items'', VItems valid_menu_items),
      (''notes'', opt_str (intent_notes idata)),
      (''phone'', get (scratchpad (state ctx)) ''phone''),
      (''address'', get (scratchpad (state ctx)) ''address'')]"

definition set_step :: "session_context \<Rightarrow> string \<Rightarrow> session_context" where
  "set_step ctx s = ctx\<lparr> state := (state ctx)\<lparr> step := Some s \<rparr> \<rparr>"

text \<open>
  The dispatcher. It returns the reply with \<open>ctx.state.session_done\<close> as the handler left
  it, or the exception of the handler.
\<close>

definition route_intent :: "agent_core \<Rightarrow> world \<Rightarrow> intent_data \<Rightarrow> session_context
    \<Rightarrow> (error + reply \<times> bool) \<times> session_context" where
  "route_intent core w idata ctx =
     (let ctx0 = (if flow (state ctx) = None
                  then ctx\<lparr> state := (state ctx)\<lparr> flow := Some ''food_order'' \<rparr> \<rparr> else ctx);
          (r, ctx1) =
            (if intent idata = ''get_menu'' then handle_get_menu core w idata (set_step ctx0 ''menu'')
             else if intent idata = ''provide_phone'' then handle_phone core w idata (set_step ctx0 ''phone'')
             else if intent idata = ''provide_address'' then handle_address idata (set_step ctx0 ''address'')
             else if intent idata = ''place_order'' then handle_order core w idata (set_step ctx0 ''order'')
             else if intent idata \<in> {''chitchat'', ''unknown''} then (Inr Fallback, set_step ctx0 ''fallback'')
             else (Inr NotUnderstood, set_step ctx0 ''unknown''))
      in case r of
           Inl e \<Rightarrow> (Inl e, ctx1)
         | Inr rt \<Rightarrow> (Inr (rt, session_done (state ctx1)), ctx1))"

text \<open>
  \<open>handle\<close> after \<open>_resolve_session\<close>, on the context resolved: the user message is appended,
  the router and the dispatcher are called, the done flag is written back and the snapshot
  taken. The context comes back as the turn left it, also when the turn raised.
\<close>

definition handle_steps :: "agent_core \<Rightarrow> world \<Rightarrow> orchestrator_request \<Rightarrow> session_context
    \<Rightarrow> (error + orchestrator_response) \<times> session_context" where
  "handle_steps core w req ctx =
     (let ctx1 = append_user_message ctx (req_text req) (clock_handle w) in
      case route w (req_text req) ctx1 of
        Inl e \<Rightarrow> (Inl e, ctx1)
      | Inr idata \<Rightarrow>
          (case route_intent core w idata ctx1 of
             (Inl e, ctx2) \<Rightarrow> (Inl e, ctx2)
           | (Inr (reply, done), ctx2) \<Rightarrow>
               let ctx3 = ctx2\<lparr> state := (state ctx2)\<lparr> session_done := done \<rparr> \<rparr>
               in (Inr \<lparr> reply_text = reply, response_done = done,
                         response_snapshot = from_ctx ctx3 \<rparr>, ctx3)))"

definition resolve_session :: "agent_core \<Rightarrow> world \<Rightarrow> store \<Rightarrow> orchestrator_request
    \<Rightarrow> session_context \<times> store" where
  "resolve_session core w st req =
     (case load (store_ttl core) st (clock_load w) (req_channel req) (req_user_id req) (req_session_id req) of
        (None, st1) \<Rightarrow>
          (new (req_channel req) (req_user_id req) (req_session_id req) (clock_handle w), st1)
      | (Some ctx, st1) \<Rightarrow> (ctx, st1))"

text \<open>
  \<open>handle\<close> on the store. A context loaded from the store is the object the store holds,
  and the turn changes it in place: when the turn raises before \<open>save\<close>, the store holds
  the context as the turn left it. A context created by the turn reaches the store only
  through \<open>save\<close>.
\<close>

definition handle :: "agent_core \<Rightarrow> world \<Rightarrow> store \<Rightarrow> orchestrator_request
    \<Rightarrow> (error + orchestrator_response) \<times> store" where
  "handle core w st req =
     (let (ctx, st1) = resolve_session core w st req;
          k = key (req_channel req) (req_user_id req) (req_session_id req);
          (res, ctx') = handle_steps core w req ctx
      in case res of
           Inl e \<Rightarrow> (Inl e, if st1 k = None then st1 else st1(k \<mapsto> ctx'))
         | Inr resp \<Rightarrow> (Inr resp, save st1 ctx'))"





section \<open>Example sessions\<close>

text \<open>
  Sessions with a cached menu and tables of \<open>difflib\<close> ratios, on which the properties
  below are evaluated. The ratios are \<open>2M/T\<close> for the pairs named: \<open>8/9\<close> for "frie" against
  "fries" and against "fried", \<open>7/10\<close> for "chicken" against "chicken wings", \<open>1/3\<close> for
  "chicken" against "fries", \<open>1/9\<close> and \<open>1/5\<close> for "pizza" against the two, and \<open>0\<close> for
  "xyz" against "fries".
\<close>

definition dup_menu_ctx :: session_context where
  "dup_menu_ctx = (new ''web'' ''u1'' ''s1'' 0)\<lparr> state := (state (new ''web'' ''u1'' ''s1'' 0))\<lparr> scratchpad :=
      [''menu_items'' \<mapsto> VItems [MenuDict (Some ''Fries'') (Some ''$3''), MenuDict (Some ''fries'') (Some ''$4'')]] \<rparr> \<rparr>"

definition wings_ctx :: session_context where
  "wings_ctx = (new ''web'' ''u1'' ''s1'' 0)\<lparr> state := (state (new ''web'' ''u1'' ''s1'' 0))\<lparr> scratchpad :=
      [''menu_items'' \<mapsto> VItems [MenuDict (Some ''Chicken Wings'') (Some ''$9''), MenuStr ''Fries'']] \<rparr> \<rparr>"

definition wings_ctx_later :: session_context where
  "wings_ctx_later =
     (let c = append_user_message wings_ctx ''hello'' 5 in
      c\<lparr> state := (state c)\<lparr> step := Some ''order'', session_done := True,
            scratchpad := (scratchpad (state c))(''phone'' \<mapsto> VStr ''555'') \<rparr> \<rparr>)"

definition fries_ctx :: session_context where
  "fries_ctx = (new ''web'' ''u1'' ''s1'' 0)\<lparr> state := (state (new ''web'' ''u1'' ''s1'' 0))\<lparr> scratchpad :=
      [''menu_items'' \<mapsto> VItems [MenuStr ''Fries'']] \<rparr> \<rparr>"

definition tie_ratio :: "string \<Rightarrow> string \<Rightarrow> rat" where
  "tie_ratio = table_ratio [((''frie'', ''fries''), 8/9), ((''frie'', ''fried''), 8/9)]"

definition wings_ratio :: "string \<Rightarrow> string \<Rightarrow> rat" where
  "wings_ratio = table_ratio
     [((''chicken'', ''chicken wings''), 7/10), ((''chicken'', ''fries''), 1/3),
      ((''pizza'', ''chicken wings''), 1/9), ((''pizza'', ''fries''), 1/5)]"

text \<open>
  An agent with the three webhooks configured, one request, and three worlds: one whose
  router reads the request as an order of fries and whose order webhook answers a JSON
  object without \<open>order_id\<close>, one whose router reads it as small talk, and one whose router
  reads it as a menu request while the menu webhook answers with an HTTP error status.
\<close>

definition core0 :: agent_core where
  "core0 = \<lparr> store_ttl = timedelta_minutes 60, fuzzy_threshold = 7/10, sm_ratio = wings_ratio,
             n8n = \<lparr> menu_url = Some ''https://n8n.example/menu'',
                     phone_url = Some ''https://n8n.example/phone'',
                     order_url = Some ''https://n8n.example/order'' \<rparr> \<rparr>"

definition req0 :: orchestrator_request where
  "req0 = \<lparr> req_channel = ''web'', req_user_id = ''u1'', req_session_id = ''s1'',
            req_text = ''fries please'' \<rparr>"

definition order_idata :: intent_data where
  "order_idata = \<lparr> intent = ''place_order'', phone = None, address = None,
                   items = [''fries''], intent_notes = None \<rparr>"

definition order_world :: world where
  "order_world = \<lparr> clock_handle = 10, clock_load = 11,
                   route = (\<lambda>txt ctx. Inr order_idata),
                   http_post = (\<lambda>url pl. JsonBody no_keys) \<rparr>"

definition chat_world :: world where
  "chat_world = \<lparr> clock_handle = 20, clock_load = 21,
                  route = (\<lambda>txt ctx. Inr \<lparr> intent = ''chitchat'', phone = None, address = None,
                                            items = [], intent_notes = None \<rparr>),
                  http_post = (\<lambda>url pl. TextBody) \<rparr>"

definition failing_world :: world where
  "failing_world = \<lparr> clock_handle = 30, clock_load = 31,
                     route = (\<lambda>txt ctx. Inr \<lparr> intent = ''get_menu'', phone = None, address = None,
                                               items = [], intent_notes = None \<rparr>),
                     http_post = (\<lambda>url pl. StatusError) \<rparr>"

text \<open>
  A session whose menu lists "Fries" before "Fried", and a world like \<open>order_world\<close> whose
  order webhook answers only a payload that orders that dish of fries, and answers every
  other payload with an HTTP error status.
\<close>

definition tie_ctx :: session_context where
  "tie_ctx = (new ''web'' ''u1'' ''s1'' 0)\<lparr> state := (state (new ''web'' ''u1'' ''s1'' 0))\<lparr> scratchpad :=
      [''menu_items'' \<mapsto> VItems [MenuStr ''Fries'', MenuStr ''Fried'']] \<rparr> \<rparr>"

definition picky_world :: world where
  "picky_world = \<lparr> clock_handle = 10, clock_load = 11,
                   route = (\<lambda>txt ctx. Inr order_idata),
                   http_post = (\<lambda>url pl. if map_of pl ''items'' = Some (VItems [MenuStr ''Fries''])
                                         then JsonBody no_keys else StatusError) \<rparr>"

section \<open>Properties of the session store\<close>

lemma new_session [simp]:
  "channel (session (new ch uid sid t)) = ch" "user_id (session (new ch uid sid t)) = uid"
  "session_id (session (new ch uid sid t)) = sid" "last_seen_at (session (new ch uid sid t)) = t"
  by (simp_all add: new_def)

text \<open>
  C3. A record saved under its key is loaded back unchanged, and the store is left as it
  is, as long as \<open>now - last_seen_at \<le> ttl\<close>. Once \<open>now - last_seen_at > ttl\<close>, \<open>load\<close>
  returns \<open>None\<close> and removes the record from the store, so that every later \<open>load\<close> of the
  key, at any clock reading and before any sweep, returns \<open>None\<close> as well.
\<close>

theorem load_after_save:
  "(now - last_seen_at (session c) \<le> ttl \<longrightarrow>
      load ttl (save st c) now (channel (session c)) (user_id (session c)) (session_id (session c))
        = (Some c, save st c)) \<and>
   (now - last_seen_at (session c) > ttl \<longrightarrow>
      load ttl (save st c) now (channel (session c)) (user_id (session c)) (session_id (session c))
        = (None, (save st c)(key (channel (session c)) (user_id (session c)) (session_id (session c)) := None)) \<and>
      (\<forall>later. fst (load ttl
           (snd (load ttl (save st c) now (channel (session c)) (user_id (session c)) (session_id (session c))))
           later (channel (session c)) (user_id (session c)) (session_id (session c))) = None))"
  by (auto simp: load_def save_def key_def Let_def)

text \<open>
  With a time-to-live of 60 minutes, a session last seen at 0 is still loaded at
  3600000000 microseconds and is gone at 3600000001, also for a later load at clock 0.
\<close>

theorem load_after_save_witness:
  "load (timedelta_minutes 60) (save Map.empty (new ''web'' ''u1'' ''s1'' 0)) 3600000000 ''web'' ''u1'' ''s1''
     = (Some (new ''web'' ''u1'' ''s1'' 0), save Map.empty (new ''web'' ''u1'' ''s1'' 0)) \<and>
   fst (load (timedelta_minutes 60) (save Map.empty (new ''web'' ''u1'' ''s1'' 0)) 3600000001 ''web'' ''u1'' ''s1'') = None \<and>
   fst (load (timedelta_minutes 60)
         (snd (load (timedelta_minutes 60) (save Map.empty (new ''web'' ''u1'' ''s1'' 0)) 3600000001 ''web'' ''u1'' ''s1''))
         0 ''web'' ''u1'' ''s1'') = None"
proof -
  let ?c = "new ''web'' ''u1'' ''s1'' 0"
  let ?ttl = "timedelta_minutes 60"
  have le: "3600000000 - last_seen_at (session ?c) \<le> ?ttl"
    by (simp add: timedelta_minutes_def)
  have gt: "3600000001 - (0::int) > ?ttl"
    by (simp add: timedelta_minutes_def)
  from load_after_save [where now = 3600000000 and c = ?c and ttl = ?ttl and st = Map.empty] le
  have a: "load ?ttl (save Map.empty ?c) 3600000000 ''web'' ''u1'' ''s1'' = (Some ?c, save Map.empty ?c)"
    by simp
  have inst: "3600000001 - (0::int) > ?ttl \<longrightarrow>
      load ?ttl (save Map.empty ?c) 3600000001 ''web'' ''u1'' ''s1''
        = (None, (save Map.empty ?c)(key ''web'' ''u1'' ''s1'' := None)) \<and>
      (\<forall>later. fst (load ?ttl
           (snd (load ?ttl (save Map.empty ?c) 3600000001 ''web'' ''u1'' ''s1''))
           later ''web'' ''u1'' ''s1'') = None)"
    using load_after_save [where now = 3600000001 and c = ?c and ttl = ?ttl and st = Map.empty]
    by (simp only: new_session, blast)
  from inst gt
  have b: "load ?ttl (save Map.empty ?c) 3600000001 ''web'' ''u1'' ''s1''
             = (None, (save Map.empty ?c)(key ''web'' ''u1'' ''s1'' := None))"
    and c: "\<forall>later. fst (load ?ttl
           (snd (load ?ttl (save Map.empty ?c) 3600000001 ''web'' ''u1'' ''s1''))
           later ''web'' ''u1'' ''s1'') = None"
    by blast+
  from c have c0: "fst (load ?ttl
           (snd (load ?ttl (save Map.empty ?c) 3600000001 ''web'' ''u1'' ''s1''))
           0 ''web'' ''u1'' ''s1'') = None" by blast
  from b have b0: "fst (load ?ttl (save Map.empty ?c) 3600000001 ''web'' ''u1'' ''s1'') = None"
    by simp
  from a b0 c0 show ?thesis by blast
qed

section \<open>Facts about the menu validator\<close>

lemma lower_Nil_iff: "lower s = [] \<longleftrightarrow> s = []"
  by (simp add: lower_def)

lemma build_lookup_names:
  "snd (build_lookup ms (nti, nl)) = nl @ map lower (filter (\<lambda>n. n \<noteq> []) (map entry_name ms))"
  by (induction ms arbitrary: nti nl) (simp_all add: Let_def)

lemma build_lookup_dom:
  "dom (fst (build_lookup ms (nti, nl))) = dom nti \<union> set (map lower (filter (\<lambda>n. n \<noteq> []) (map entry_name ms)))"
  by (induction ms arbitrary: nti nl) (auto simp add: Let_def)

lemma build_lookup_skip:
  "\<forall>m\<in>set ms. lower (entry_name m) \<noteq> c \<Longrightarrow> c \<noteq> [] \<Longrightarrow> fst (build_lookup ms (nti, nl)) c = nti c"
  by (induction ms arbitrary: nti nl) (auto simp add: Let_def lower_Nil_iff)

lemma build_lookup_append:
  "build_lookup (xs @ ys) acc = build_lookup ys (build_lookup xs acc)"
  by (induction xs arbitrary: acc) (auto simp add: Let_def)

lemma build_lookup_last:
  assumes "c \<noteq> []" "lower (entry_name e) = c" "\<forall>m\<in>set later. lower (entry_name m) \<noteq> c"
  shows "fst (build_lookup (pre @ e # later) (nti, nl)) c = Some e"
proof -
  obtain a b where ab: "build_lookup pre (nti, nl) = (a, b)" by (cases "build_lookup pre (nti, nl)")
  have ne: "entry_name e \<noteq> []" using assms by (auto simp: lower_Nil_iff)
  show ?thesis using assms ne
    by (simp add: build_lookup_append ab Let_def build_lookup_skip)
qed

lemma build_lookup_range:
  "fst (build_lookup ms (nti, nl)) c = Some e \<Longrightarrow>
     nti c = Some e \<or> (e \<in> set ms \<and> entry_name e \<noteq> [] \<and> lower (entry_name e) = c)"
proof (induction ms arbitrary: nti nl)
  case Nil
  then show ?case by simp
next
  case (Cons a ms)
  show ?case
  proof (cases "entry_name a = []")
    case True
    with Cons.prems have "fst (build_lookup ms (nti, nl)) c = Some e" by simp
    from Cons.IH[OF this] show ?thesis by auto
  next
    case False
    with Cons.prems have
      "fst (build_lookup ms (nti(lower (entry_name a) \<mapsto> a), nl @ [lower (entry_name a)])) c = Some e"
      by (simp add: Let_def)
    from Cons.IH[OF this] False show ?thesis by (auto split: if_splits)
  qed
qed

lemma build_lookup_names0:
  "build_lookup ms (Map.empty, []) = (nti, nl) \<Longrightarrow> set nl = dom nti \<and> [] \<notin> set nl"
  using build_lookup_names [of ms Map.empty "[]"] build_lookup_dom [of ms Map.empty "[]"]
  by (auto simp: lower_Nil_iff dest: sym)

text \<open>
  The fuzzy loop, from any accumulator: the final ratio bounds every ratio seen, and the
  accumulator is either kept or replaced by the first name that attains the final ratio.
\<close>

lemma fuzzy_loop_char:
  "fuzzy_loop ratio c ns (bm, br) = (bm', br') \<Longrightarrow>
     br \<le> br' \<and> (\<forall>n\<in>set ns. ratio c n \<le> br') \<and>
     ((bm' = bm \<and> br' = br) \<or>
      (\<exists>i<length ns. bm' = Some (ns ! i) \<and> br' = ratio c (ns ! i) \<and> br < br' \<and>
          (\<forall>j<i. ratio c (ns ! j) < br')))"
proof (induction ns arbitrary: bm br)
  case Nil
  then show ?case by simp
next
  case (Cons n ns)
  show ?case
  proof (cases "ratio c n > br")
    case True
    with Cons.prems have eq: "fuzzy_loop ratio c ns (Some n, ratio c n) = (bm', br')" by simp
    from Cons.IH[OF eq] have le: "ratio c n \<le> br'" and all: "\<forall>m\<in>set ns. ratio c m \<le> br'"
      and dj: "(bm' = Some n \<and> br' = ratio c n) \<or>
      (\<exists>i<length ns. bm' = Some (ns ! i) \<and> br' = ratio c (ns ! i) \<and> ratio c n < br' \<and>
          (\<forall>j<i. ratio c (ns ! j) < br'))" by auto
    from dj show ?thesis
    proof
      assume a: "bm' = Some n \<and> br' = ratio c n"
      have "\<exists>i<length (n # ns). bm' = Some ((n # ns) ! i) \<and> br' = ratio c ((n # ns) ! i) \<and> br < br' \<and>
          (\<forall>j<i. ratio c ((n # ns) ! j) < br')"
        using a True by (intro exI[of _ 0]) simp
      then show ?thesis using le all True by auto
    next
      assume "\<exists>i<length ns. bm' = Some (ns ! i) \<and> br' = ratio c (ns ! i) \<and> ratio c n < br' \<and>
          (\<forall>j<i. ratio c (ns ! j) < br')"
      then obtain i where i: "i < length ns" "bm' = Some (ns ! i)" "br' = ratio c (ns ! i)" "ratio c n < br'"
          "\<forall>j<i. ratio c (ns ! j) < br'" by blast
      have "\<forall>j<Suc i. ratio c ((n # ns) ! j) < br'"
        using i by (auto simp: less_Suc_eq_0_disj)
      then have "\<exists>i<length (n # ns). bm' = Some ((n # ns) ! i) \<and> br' = ratio c ((n # ns) ! i) \<and> br < br' \<and>
          (\<forall>j<i. ratio c ((n # ns) ! j) < br')"
        using i True by (intro exI[of _ "Suc i"]) auto
      then show ?thesis using le all True by auto
    qed
  next
    case False
    with Cons.prems have eq: "fuzzy_loop ratio c ns (bm, br) = (bm', br')" by simp
    from Cons.IH[OF eq] have le: "br \<le> br'" and all: "\<forall>m\<in>set ns. ratio c m \<le> br'"
      and dj: "(bm' = bm \<and> br' = br) \<or>
      (\<exists>i<length ns. bm' = Some (ns ! i) \<and> br' = ratio c (ns ! i) \<and> br < br' \<and>
          (\<forall>j<i. ratio c (ns ! j) < br'))" by auto
    from dj show ?thesis
    proof
      assume "bm' = bm \<and> br' = br"
      then show ?thesis using le all False by auto
    next
      assume "\<exists>i<length ns. bm' = Some (ns ! i) \<and> br' = ratio c (ns ! i) \<and> br < br' \<and>
          (\<forall>j<i. ratio c (ns ! j) < br')"
      then obtain i where i: "i < length ns" "bm' = Some (ns ! i)" "br' = ratio c (ns ! i)" "br < br'"
          "\<forall>j<i. ratio c (ns ! j) < br'" by blast
      have "\<forall>j<Suc i. ratio c ((n # ns) ! j) < br'"
        using i False by (auto simp: less_Suc_eq_0_disj)
      then have "\<exists>i<length (n # ns). bm' = Some ((n # ns) ! i) \<and> br' = ratio c ((n # ns) ! i) \<and> br < br' \<and>
          (\<forall>j<i. ratio c ((n # ns) ! j) < br')"
        using i by (intro exI[of _ "Suc i"]) auto
      then show ?thesis using le all False by auto
    qed
  qed
qed

lemma fuzzy_loop_mem:
  "fuzzy_loop ratio c ns (None, 0) = (Some n, br) \<Longrightarrow> n \<in> set ns"
  using fuzzy_loop_char [of ratio c ns None 0 "Some n" br] by auto

lemma fuzzy_loop_max:
  assumes ne: "names \<noteq> []" and fl: "fuzzy_loop ratio c names (None, 0) = (bm, br)"
  shows "(bm = None \<longrightarrow> Max (ratio c ` set names) \<le> 0) \<and>
         (\<forall>b. bm = Some b \<longrightarrow> b \<in> set names \<and> br = Max (ratio c ` set names) \<and> 0 < br)"
proof -
  let ?S = "ratio c ` set names"
  have fin: "finite ?S" and nonempty: "?S \<noteq> {}" using ne by auto
  from fuzzy_loop_char [OF fl]
  have ub: "\<forall>n\<in>set names. ratio c n \<le> br"
    and dj: "(bm = None \<and> br = 0) \<or>
      (\<exists>i<length names. bm = Some (names ! i) \<and> br = ratio c (names ! i) \<and> 0 < br)"
    by auto
  from dj show ?thesis
  proof
    assume a: "bm = None \<and> br = 0"
    then have "Max ?S \<le> 0" using ub fin nonempty by (simp add: Max_le_iff)
    with a show ?thesis by simp
  next
    assume "\<exists>i<length names. bm = Some (names ! i) \<and> br = ratio c (names ! i) \<and> 0 < br"
    then obtain i where i: "i < length names" "bm = Some (names ! i)" "br = ratio c (names ! i)" "0 < br"
      by blast
    have mem: "br \<in> ?S" using i by auto
    have "Max ?S = br" using fin mem ub by (intro Max_eqI) auto
    then show ?thesis using i by auto
  qed
qed

text \<open>
  \<open>name_to_item[best_match]\<close> never raises: every name of \<open>names_lower\<close> is a key of
  \<open>name_to_item\<close>. So the loop over the order lines always returns its two lists.
\<close>

lemma match_line_no_raise:
  assumes "build_lookup ms (Map.empty, []) = (nti, nl)"
  shows "match_line ratio thr nti nl raw \<noteq> Raises e"
proof -
  have dom: "set nl = dom nti" using build_lookup_names0 [OF assms] by simp
  show ?thesis
    unfolding match_line_def Let_def
    using dom by (auto split: option.splits prod.splits dest!: fuzzy_loop_mem)
qed

lemma validate_loop_append:
  "validate_loop body (xs @ ys) acc =
     (case validate_loop body xs acc of Inl e \<Rightarrow> Inl e | Inr acc' \<Rightarrow> validate_loop body ys acc')"
proof (induction xs arbitrary: acc)
  case Nil
  then show ?case by simp
next
  case (Cons x xs)
  obtain v u where acc: "acc = (v, u)" by (cases acc)
  show ?case unfolding acc by (cases "body x") (simp_all add: Cons.IH)
qed

lemma validate_loop_acc:
  "validate_loop body xs (v, u) =
     (case validate_loop body xs ([], []) of Inl e \<Rightarrow> Inl e | Inr (v', u') \<Rightarrow> Inr (v @ v', u @ u'))"
proof (induction xs arbitrary: v u rule: rev_induct)
  case Nil
  then show ?case by simp
next
  case (snoc x xs)
  show ?case
    apply (simp only: validate_loop_append)
    apply (subst snoc.IH)
    apply (cases "validate_loop body xs ([], [])")
     apply simp
    apply (cases "body x")
       apply (auto split: prod.splits)
    done
qed

lemma validate_loop_total:
  "(\<And>x e. body x \<noteq> Raises e) \<Longrightarrow> \<exists>v u. validate_loop body xs acc = Inr (v, u)"
proof (induction xs arbitrary: acc)
  case Nil
  then show ?case by (cases acc) simp
next
  case (Cons x xs)
  obtain v u where acc: "acc = (v, u)" by (cases acc)
  show ?case unfolding acc using Cons.prems Cons.IH[OF Cons.prems]
    by (cases "body x") auto
qed

lemma iterate_truthy: "iterate v \<noteq> [] \<Longrightarrow> truthy v"
  by (cases v) auto

lemma validate_items_nonempty:
  assumes "truthy (cached_menu ctx)"
      and "build_lookup (iterate (cached_menu ctx)) (Map.empty, []) = (nti, nl)"
  shows "fst (validate_items ratio thr xs ctx) = validate_loop (match_line ratio thr nti nl) xs ([], [])"
  using assms by (simp add: validate_items_def Let_def)

lemma validate_items_returns:
  "\<exists>valid_items unknown_items. fst (validate_items ratio thr ordered_items ctx) = Inr (valid_items, unknown_items)"
proof (cases "truthy (cached_menu ctx)")
  case False
  then show ?thesis by (simp add: validate_items_def Let_def)
next
  case True
  obtain nti nl where bl: "build_lookup (iterate (cached_menu ctx)) (Map.empty, []) = (nti, nl)"
    by (cases "build_lookup (iterate (cached_menu ctx)) (Map.empty, [])")
  have "\<And>x e. match_line ratio thr nti nl x \<noteq> Raises e" using match_line_no_raise [OF bl] .
  from validate_loop_total [of "match_line ratio thr nti nl" ordered_items "([], [])", OF this]
  show ?thesis by (simp add: validate_items_nonempty [OF True bl])
qed

text \<open>
  The outcome of a line without exact match, from the result of the fuzzy loop.
\<close>

lemma match_line_fuzzy:
  assumes bl: "build_lookup ms (Map.empty, []) = (nti, nl)"
      and cand: "strip raw \<noteq> []"
      and noex: "nti (lower (strip raw)) = None"
      and fl: "fuzzy_loop ratio (lower (strip raw)) nl (None, 0) = (bm, br)"
  shows "case bm of
           None \<Rightarrow> match_line ratio thr nti nl raw = Unknown (strip raw)
         | Some b \<Rightarrow>
             if thr \<le> br then \<exists>m. nti b = Some m \<and> match_line ratio thr nti nl raw = Valid m
             else match_line ratio thr nti nl raw = Unknown (strip raw)"
proof (cases bm)
  case None
  then show ?thesis using cand noex fl by (simp add: match_line_def Let_def)
next
  case (Some b)
  have dom: "set nl = dom nti" and nonnil: "[] \<notin> set nl"
    using build_lookup_names0 [OF bl] by blast+
  have "b \<in> set nl" using fuzzy_loop_mem fl Some by blast
  then obtain m where m: "nti b = Some m" and bn: "b \<noteq> []" using dom nonnil by auto
  show ?thesis using Some cand noex fl m bn by (simp add: match_line_def Let_def)
qed

text \<open>The example sessions, evaluated.\<close>

lemma cached_menu_new: "cached_menu (new ch uid sid t) = VItems []"
  by (simp add: cached_menu_def new_def get_def or_val_def)

lemma cached_dup: "cached_menu dup_menu_ctx = VItems [MenuDict (Some ''Fries'') (Some ''$3''), MenuDict (Some ''fries'') (Some ''$4'')]"
  by (simp add: dup_menu_ctx_def cached_menu_def get_def or_val_def)

lemma norm_simps:
  "strip ''fries'' = ''fries''" "strip ''Fries'' = ''Fries''" "lower ''Fries'' = ''fries''" "lower ''fries'' = ''fries''"
  by code_simp+

lemma tie_ratio_simps:
  "tie_ratio ''frie'' ''fries'' = 8/9" "tie_ratio ''frie'' ''fried'' = 8/9"
  by (simp_all add: tie_ratio_def table_ratio_def)

lemma cached_wings:
  "cached_menu wings_ctx = VItems [MenuDict (Some ''Chicken Wings'') (Some ''$9''), MenuStr ''Fries'']"
  by (simp add: wings_ctx_def cached_menu_def get_def or_val_def)

lemma wings_names:
  "strip ''Chicken Wings'' = ''Chicken Wings''" "lower ''Chicken Wings'' = ''chicken wings''"
  "strip ''Fries'' = ''Fries''" "lower ''Fries'' = ''fries''"
  "strip ''chicken'' = ''chicken''" "lower ''chicken'' = ''chicken''"
  "strip ''pizza'' = ''pizza''" "lower ''pizza'' = ''pizza''"
  "strip ''xyz'' = ''xyz''" "lower ''xyz'' = ''xyz''"
  by code_simp+

lemma wings_lookup:
  "build_lookup (iterate (cached_menu wings_ctx)) (Map.empty, [])
     = ([''chicken wings'' \<mapsto> MenuDict (Some ''Chicken Wings'') (Some ''$9''), ''fries'' \<mapsto> MenuStr ''Fries''],
        [''chicken wings'', ''fries''])"
  by (simp add: cached_wings wings_names Let_def)

lemma wings_ratio_simps:
  "wings_ratio ''chicken'' ''chicken wings'' = 7/10" "wings_ratio ''chicken'' ''fries'' = 1/3"
  "wings_ratio ''pizza'' ''chicken wings'' = 1/9" "wings_ratio ''pizza'' ''fries'' = 1/5"
  by (simp_all add: wings_ratio_def table_ratio_def)

lemma tie_names:
  "strip ''Fried'' = ''Fried''" "lower ''Fried'' = ''fried''"
  "strip ''frie'' = ''frie''" "lower ''frie'' = ''frie''"
  by code_simp+

lemma cached_tie: "cached_menu tie_ctx = VItems [MenuStr ''Fries'', MenuStr ''Fried'']"
  by (simp add: tie_ctx_def cached_menu_def get_def or_val_def)

lemma tie_lookup:
  "build_lookup (iterate (cached_menu tie_ctx)) (Map.empty, [])
     = ([''fries'' \<mapsto> MenuStr ''Fries'', ''fried'' \<mapsto> MenuStr ''Fried''], [''fries'', ''fried''])"
  by (simp add: cached_tie wings_names tie_names Let_def)

section \<open>Properties of the menu validator\<close>

text \<open>
  C5, as the code has it. When the cached menu is empty or absent, \<open>validate_items\<close> returns
  no valid item and, as the unknown items, the list it was given: the same lines in the
  same order, neither stripped nor filtered.
\<close>

theorem empty_menu_returns_input:
  "\<not> truthy (cached_menu ctx) \<Longrightarrow>
     validate_items ratio thr ordered_items ctx = (Inr ([], ordered_items), ctx)"
  by (simp add: validate_items_def Let_def)

text \<open>
  A new session has no cached menu; the two lines come back as they were.
\<close>

theorem empty_menu_returns_input_witness:
  "\<not> truthy (cached_menu (new ''web'' ''u1'' ''s1'' 0)) \<and>
   validate_items (table_ratio []) (7/10) ['' pizza '', ''''] (new ''web'' ''u1'' ''s1'' 0)
     = (Inr ([], ['' pizza '', '''']), new ''web'' ''u1'' ''s1'' 0)"
  using empty_menu_returns_input [of "new ''web'' ''u1'' ''s1'' 0" "table_ratio []" "7/10" "['' pizza '', '''']"]
  by (simp add: cached_menu_new)

text \<open>
  C5 as stated fails on the same input: the non-empty stripped lines of the input are
  \<open>["pizza"]\<close>, and the unknown items returned are the two raw lines.
\<close>

theorem empty_menu_not_trimmed:
  "\<not> truthy (cached_menu (new ''web'' ''u1'' ''s1'' 0)) \<and>
   filter (\<lambda>s. s \<noteq> []) (map strip ['' pizza '', '''']) = [''pizza''] \<and>
   fst (validate_items (table_ratio []) (7/10) ['' pizza '', ''''] (new ''web'' ''u1'' ''s1'' 0))
     \<noteq> Inr ([], filter (\<lambda>s. s \<noteq> []) (map strip ['' pizza '', '''']))"
  by (simp add: cached_menu_new validate_items_def Let_def strip_def isspace_def)

text \<open>
  C6, as the code has it. A line whose stripped, lower-cased form is the normalized name
  of a menu entry is matched to the last entry of the cached menu with that normalized
  name (\<open>name_to_item[lower] = m\<close> overwrites an earlier one), whatever the ratio function
  and the threshold are: alone, and at any position of a longer order, where the lines
  before and after it contribute what they contribute on their own.
\<close>

theorem last_exact_match_wins:
  assumes menu: "iterate (cached_menu ctx) = pre @ e # later"
      and cand: "strip raw \<noteq> []"
      and name: "lower (entry_name e) = lower (strip raw)"
      and last: "\<forall>m\<in>set later. lower (entry_name m) \<noteq> lower (strip raw)"
  shows "fst (validate_items ratio thr [raw] ctx) = Inr ([e], []) \<and>
         (\<exists>v1 u1 v2 u2.
            fst (validate_items ratio thr before ctx) = Inr (v1, u1) \<and>
            fst (validate_items ratio thr after ctx) = Inr (v2, u2) \<and>
            fst (validate_items ratio thr (before @ raw # after) ctx) = Inr (v1 @ e # v2, u1 @ u2))"
proof -
  have tr: "truthy (cached_menu ctx)" using menu by (intro iterate_truthy) simp
  obtain nti nl where bl: "build_lookup (iterate (cached_menu ctx)) (Map.empty, []) = (nti, nl)"
    by (cases "build_lookup (iterate (cached_menu ctx)) (Map.empty, [])")
  let ?body = "match_line ratio thr nti nl"
  have c: "lower (strip raw) \<noteq> []" using cand by (simp add: lower_Nil_iff)
  have "fst (build_lookup (pre @ e # later) (Map.empty, [])) (lower (strip raw)) = Some e"
    using build_lookup_last [OF c name last] .
  then have look: "nti (lower (strip raw)) = Some e" using bl menu by simp
  have line: "?body raw = Valid e"
    using cand look by (simp add: match_line_def Let_def)
  have nr: "\<And>x err. ?body x \<noteq> Raises err" using match_line_no_raise [OF bl] .
  obtain v1 u1 where b: "validate_loop ?body before ([], []) = Inr (v1, u1)"
    using validate_loop_total [of ?body before "([], [])"] nr by blast
  obtain v2 u2 where a: "validate_loop ?body after ([], []) = Inr (v2, u2)"
    using validate_loop_total [of ?body after "([], [])"] nr by blast
  have whole: "validate_loop ?body (before @ raw # after) ([], []) = Inr (v1 @ e # v2, u1 @ u2)"
    using b a line by (simp add: validate_loop_append validate_loop_acc [of ?body after "v1 @ [e]" u1])
  have single: "validate_loop ?body [raw] ([], []) = Inr ([e], [])" using line by simp
  show ?thesis
    using single b a whole by (simp add: validate_items_nonempty [OF tr bl])
qed

text \<open>
  The menu lists "Fries" at $3 and then "fries" at $4; the line "fries" gets the second.
\<close>

theorem last_exact_match_wins_witness:
  "fst (validate_items (table_ratio []) (7/10) [''fries''] dup_menu_ctx)
     = Inr ([MenuDict (Some ''fries'') (Some ''$4'')], [])"
proof -
  have menu: "iterate (cached_menu dup_menu_ctx)
      = [MenuDict (Some ''Fries'') (Some ''$3'')] @ MenuDict (Some ''fries'') (Some ''$4'') # []"
    by (simp add: cached_dup)
  have cand: "strip ''fries'' \<noteq> []" by (simp add: norm_simps)
  have name: "lower (entry_name (MenuDict (Some ''fries'') (Some ''$4''))) = lower (strip ''fries'')"
    by (simp add: norm_simps)
  have last: "\<forall>m\<in>set []. lower (entry_name m) \<noteq> lower (strip ''fries'')" by simp
  from last_exact_match_wins [OF menu cand name last, of "table_ratio []" "7/10" "[]" "[]"]
  show ?thesis by blast
qed

text \<open>
  C6 as stated fails there: the normalized name of the first entry equals the normalized
  line, and the first entry is not the one accepted.
\<close>

theorem earlier_duplicate_not_accepted:
  "lower (entry_name (MenuDict (Some ''Fries'') (Some ''$3''))) = lower (strip ''fries'') \<and>
   fst (validate_items (table_ratio []) (7/10) [''fries''] dup_menu_ctx)
     = Inr ([MenuDict (Some ''fries'') (Some ''$4'')], []) \<and>
   fst (validate_items (table_ratio []) (7/10) [''fries''] dup_menu_ctx)
     \<noteq> Inr ([MenuDict (Some ''Fries'') (Some ''$3'')], [])"
  by (simp add: validate_items_def cached_dup Let_def match_line_def norm_simps)

text \<open>
  C7. In the fuzzy loop a name replaces the current best only when its ratio is strictly
  greater than the current best ratio (first conjunct, for any accumulator). The loop of
  \<open>validate_items\<close> runs over the normalized names of the cached menu in menu order. For a
  non-empty line with no exact match, started from \<open>(None, 0.0)\<close>, it ends with a ratio that
  bounds the ratio of every name, and its best match is the first of these names, in menu
  order, that attains this ratio (\<open>None\<close> when no ratio is positive). \<open>validate_items\<close>
  accepts the entry \<open>name_to_item\<close> holds for exactly this name when the ratio reaches the
  threshold, and reports the line unknown otherwise: the candidate chosen is a function
  of the line and the ordered menu.
\<close>

theorem first_maximum_kept:
  assumes bl: "build_lookup (iterate (cached_menu ctx)) (Map.empty, []) = (name_to_item, names_lower)"
      and cand: "strip raw \<noteq> []"
      and noex: "name_to_item (lower (strip raw)) = None"
      and ne: "names_lower \<noteq> []"
  shows "fuzzy_loop ratio c (n # rest) (bm, br)
           = fuzzy_loop ratio c rest (if ratio c n > br then (Some n, ratio c n) else (bm, br)) \<and>
         names_lower = map lower (filter (\<lambda>x. x \<noteq> []) (map entry_name (iterate (cached_menu ctx)))) \<and>
         (\<exists>best_match best_ratio.
            fuzzy_loop ratio (lower (strip raw)) names_lower (None, 0) = (best_match, best_ratio) \<and>
            (\<forall>x\<in>set names_lower. ratio (lower (strip raw)) x \<le> best_ratio) \<and>
            (case best_match of
               None \<Rightarrow> best_ratio = 0 \<and>
                 fst (validate_items ratio thr [raw] ctx) = Inr ([], [strip raw])
             | Some b \<Rightarrow>
                 (\<exists>i<length names_lower. names_lower ! i = b \<and>
                      ratio (lower (strip raw)) b = best_ratio \<and> 0 < best_ratio \<and>
                      (\<forall>j<i. ratio (lower (strip raw)) (names_lower ! j) < best_ratio)) \<and>
                 (if thr \<le> best_ratio
                  then \<exists>m. name_to_item b = Some m \<and>
                           fst (validate_items ratio thr [raw] ctx) = Inr ([m], [])
                  else fst (validate_items ratio thr [raw] ctx) = Inr ([], [strip raw]))))"
proof -
  let ?c = "lower (strip raw)"
  have step: "fuzzy_loop ratio c (n # rest) (bm, br)
           = fuzzy_loop ratio c rest (if ratio c n > br then (Some n, ratio c n) else (bm, br))"
    by simp
  have names: "names_lower = map lower (filter (\<lambda>x. x \<noteq> []) (map entry_name (iterate (cached_menu ctx))))"
    using build_lookup_names [of "iterate (cached_menu ctx)" Map.empty "[]"] bl by simp
  have "iterate (cached_menu ctx) \<noteq> []" using bl ne by auto
  then have tr: "truthy (cached_menu ctx)" by (rule iterate_truthy)
  have r: "fst (validate_items ratio thr [raw] ctx)
             = validate_loop (match_line ratio thr name_to_item names_lower) [raw] ([], [])"
    using validate_items_nonempty [OF tr bl] .
  obtain best_match best_ratio where
    fl: "fuzzy_loop ratio ?c names_lower (None, 0) = (best_match, best_ratio)"
    by (cases "fuzzy_loop ratio ?c names_lower (None, 0)")
  from fuzzy_loop_char [OF fl]
  have bound: "\<forall>x\<in>set names_lower. ratio ?c x \<le> best_ratio" by blast
  note ml = match_line_fuzzy [OF bl cand noex fl, of thr]
  have "case best_match of
               None \<Rightarrow> best_ratio = 0 \<and>
                 fst (validate_items ratio thr [raw] ctx) = Inr ([], [strip raw])
             | Some b \<Rightarrow>
                 (\<exists>i<length names_lower. names_lower ! i = b \<and>
                      ratio ?c b = best_ratio \<and> 0 < best_ratio \<and>
                      (\<forall>j<i. ratio ?c (names_lower ! j) < best_ratio)) \<and>
                 (if thr \<le> best_ratio
                  then \<exists>m. name_to_item b = Some m \<and>
                           fst (validate_items ratio thr [raw] ctx) = Inr ([m], [])
                  else fst (validate_items ratio thr [raw] ctx) = Inr ([], [strip raw]))"
  proof (cases best_match)
    case None
    have "best_ratio = 0" using fuzzy_loop_char [OF fl] None by auto
    moreover have "fst (validate_items ratio thr [raw] ctx) = Inr ([], [strip raw])"
      using ml None by (simp add: r)
    ultimately show ?thesis using None by simp
  next
    case (Some b)
    have first: "\<exists>i<length names_lower. names_lower ! i = b \<and>
                      ratio ?c b = best_ratio \<and> 0 < best_ratio \<and>
                      (\<forall>j<i. ratio ?c (names_lower ! j) < best_ratio)"
      using fuzzy_loop_char [OF fl] Some by auto
    have acc: "if thr \<le> best_ratio
                  then \<exists>m. name_to_item b = Some m \<and>
                           fst (validate_items ratio thr [raw] ctx) = Inr ([m], [])
                  else fst (validate_items ratio thr [raw] ctx) = Inr ([], [strip raw])"
      using ml Some by (auto simp: r split: if_splits)
    from first acc show ?thesis using Some by simp
  qed
  with step names fl bound show ?thesis by blast
qed

text \<open>
  The menu lists "Fries" before "Fried", and "frie" scores \<open>8/9\<close> against both: the first
  of the two is kept, and "Fries" is the entry accepted.
\<close>

theorem first_maximum_kept_witness:
  "fuzzy_loop tie_ratio ''frie'' [''fries'', ''fried''] (None, 0) = (Some ''fries'', 8/9) \<and>
   tie_ratio ''frie'' ''fried'' = 8/9 \<and>
   fst (validate_items tie_ratio (7/10) [''frie''] tie_ctx) = Inr ([MenuStr ''Fries''], [])"
proof -
  let ?nti = "[''fries'' \<mapsto> MenuStr ''Fries'', ''fried'' \<mapsto> MenuStr ''Fried'']"
  have run: "fuzzy_loop tie_ratio ''frie'' [''fries'', ''fried''] (None, 0) = (Some ''fries'', 8/9)"
    by (simp add: tie_ratio_simps)
  have cand: "strip ''frie'' \<noteq> []" by (simp add: tie_names)
  have noex: "?nti (lower (strip ''frie'')) = None" by (simp add: tie_names)
  have ne: "[''fries'', ''fried''] \<noteq> []" by simp
  from first_maximum_kept [OF tie_lookup cand noex ne, of tie_ratio "''x''" "''y''" "[]" None 0 "7/10"]
  obtain best_match best_ratio where
    fl: "fuzzy_loop tie_ratio (lower (strip ''frie'')) [''fries'', ''fried''] (None, 0) = (best_match, best_ratio)"
    and cs: "case best_match of
               None \<Rightarrow> best_ratio = 0 \<and>
                 fst (validate_items tie_ratio (7/10) [''frie''] tie_ctx) = Inr ([], [strip ''frie''])
             | Some b \<Rightarrow>
                 (\<exists>i<length [''fries'', ''fried'']. [''fries'', ''fried''] ! i = b \<and>
                      tie_ratio (lower (strip ''frie'')) b = best_ratio \<and> 0 < best_ratio \<and>
                      (\<forall>j<i. tie_ratio (lower (strip ''frie'')) ([''fries'', ''fried''] ! j) < best_ratio)) \<and>
                 (if 7/10 \<le> best_ratio
                  then \<exists>m. ?nti b = Some m \<and>
                           fst (validate_items tie_ratio (7/10) [''frie''] tie_ctx) = Inr ([m], [])
                  else fst (validate_items tie_ratio (7/10) [''frie''] tie_ctx) = Inr ([], [strip ''frie'']))"
    by blast
  from fl run have bm: "best_match = Some ''fries''" and br: "best_ratio = 8/9"
    by (simp_all add: tie_names)
  from cs have "\<exists>m. ?nti ''fries'' = Some m \<and>
       fst (validate_items tie_ratio (7/10) [''frie''] tie_ctx) = Inr ([m], [])"
    unfolding bm br by simp
  then have v: "fst (validate_items tie_ratio (7/10) [''frie''] tie_ctx) = Inr ([MenuStr ''Fries''], [])"
    by auto
  from run v show ?thesis by (simp add: tie_ratio_simps)
qed

text \<open>
  C8, as the code has it. For a non-empty line with no exact match and at least one
  candidate name, the line is matched iff the maximum ratio over the candidate names is
  at least the threshold and positive (\<open>best_match\<close> stays \<open>None\<close> when no ratio exceeds the
  initial \<open>0.0\<close>); otherwise it is unknown. For every positive threshold, the default
  \<open>0.7\<close> among them, this is: matched iff the maximum ratio is at least the threshold.
\<close>

theorem threshold_decides:
  assumes bl: "build_lookup (iterate (cached_menu ctx)) (Map.empty, []) = (name_to_item, names_lower)"
      and cand: "strip raw \<noteq> []"
      and noex: "name_to_item (lower (strip raw)) = None"
      and ne: "names_lower \<noteq> []"
  shows "(if thr \<le> Max (ratio (lower (strip raw)) ` set names_lower) \<and>
             0 < Max (ratio (lower (strip raw)) ` set names_lower)
          then \<exists>m. fst (validate_items ratio thr [raw] ctx) = Inr ([m], [])
          else fst (validate_items ratio thr [raw] ctx) = Inr ([], [strip raw])) \<and>
         (0 < thr \<longrightarrow>
            ((\<exists>m. fst (validate_items ratio thr [raw] ctx) = Inr ([m], []))
               \<longleftrightarrow> thr \<le> Max (ratio (lower (strip raw)) ` set names_lower)))"
proof -
  let ?c = "lower (strip raw)"
  let ?mx = "Max (ratio ?c ` set names_lower)"
  let ?r = "fst (validate_items ratio thr [raw] ctx)"
  have "iterate (cached_menu ctx) \<noteq> []" using bl ne by auto
  then have tr: "truthy (cached_menu ctx)" by (rule iterate_truthy)
  have dom: "set names_lower = dom name_to_item" and nonnil: "[] \<notin> set names_lower"
    using build_lookup_names0 [OF bl] by blast+
  obtain bm br where fl: "fuzzy_loop ratio ?c names_lower (None, 0) = (bm, br)"
    by (cases "fuzzy_loop ratio ?c names_lower (None, 0)")
  note mx = fuzzy_loop_max [OF ne fl]
  have r: "?r = validate_loop (match_line ratio thr name_to_item names_lower) [raw] ([], [])"
    using validate_items_nonempty [OF tr bl] .
  have main: "if thr \<le> ?mx \<and> 0 < ?mx then \<exists>m. ?r = Inr ([m], []) else ?r = Inr ([], [strip raw])"
  proof (cases bm)
    case None
    then have "?mx \<le> 0" using mx by simp
    moreover have "?r = Inr ([], [strip raw])"
      using None fl cand noex by (simp add: r match_line_def Let_def)
    ultimately show ?thesis by simp
  next
    case (Some b)
    then have b: "b \<in> set names_lower" "br = ?mx" "0 < br" using mx by simp_all
    then obtain m where m: "name_to_item b = Some m" using dom by auto
    have bn: "b \<noteq> []" using b nonnil by auto
    show ?thesis
    proof (cases "thr \<le> br")
      case True
      have "?r = Inr ([m], [])"
        using Some fl cand noex m bn True by (simp add: r match_line_def Let_def)
      then show ?thesis using True b by auto
    next
      case False
      have "?r = Inr ([], [strip raw])"
        using Some fl cand noex bn False by (simp add: r match_line_def Let_def)
      then show ?thesis using False b by auto
    qed
  qed
  have "0 < thr \<longrightarrow> ((\<exists>m. ?r = Inr ([m], [])) \<longleftrightarrow> thr \<le> ?mx)"
    using main by (auto split: if_splits)
  with main show ?thesis by blast
qed

text \<open>
  With the threshold \<open>7/10\<close>, "chicken" scores exactly \<open>7/10\<close> against "chicken wings" and
  is matched; "pizza" scores at most \<open>1/5\<close> and is unknown.
\<close>

theorem threshold_decides_witness:
  "(\<exists>m. fst (validate_items wings_ratio (7/10) [''chicken''] wings_ctx) = Inr ([m], [])) \<and>
   Max (wings_ratio ''chicken'' ` set [''chicken wings'', ''fries'']) = 7/10 \<and>
   fst (validate_items wings_ratio (7/10) [''pizza''] wings_ctx) = Inr ([], [''pizza'']) \<and>
   Max (wings_ratio ''pizza'' ` set [''chicken wings'', ''fries'']) = 1/5"
proof -
  have m1: "Max (wings_ratio ''chicken'' ` set [''chicken wings'', ''fries'']) = 7/10"
    by (simp add: wings_ratio_simps)
  have m2: "Max (wings_ratio ''pizza'' ` set [''chicken wings'', ''fries'']) = 1/5"
    by (simp add: wings_ratio_simps)
  have a: "\<exists>m. fst (validate_items wings_ratio (7/10) [''chicken''] wings_ctx) = Inr ([m], [])"
    using threshold_decides [OF wings_lookup, of "''chicken''" "7/10" wings_ratio]
    by (simp add: wings_names wings_ratio_simps)
  have b: "fst (validate_items wings_ratio (7/10) [''pizza''] wings_ctx) = Inr ([], [''pizza''])"
    using threshold_decides [OF wings_lookup, of "''pizza''" "7/10" wings_ratio]
    by (simp add: wings_names wings_ratio_simps)
  from a m1 b m2 show ?thesis by blast
qed

text \<open>
  C8 as stated fails for the threshold \<open>0\<close>: "xyz" scores \<open>0\<close> against the only candidate
  "fries", the maximum ratio \<open>0\<close> is at least the threshold, and the line is unknown.
\<close>

theorem zero_threshold_zero_ratio_unmatched:
  "snd (build_lookup (iterate (cached_menu fries_ctx)) (Map.empty, [])) = [''fries''] \<and>
   (0::rat) \<le> Max (table_ratio [] ''xyz'' ` set [''fries'']) \<and>
   fst (validate_items (table_ratio []) 0 [''xyz''] fries_ctx) = Inr ([], [''xyz''])"
  by (simp add: fries_ctx_def cached_menu_def get_def or_val_def wings_names Let_def
        validate_items_def match_line_def table_ratio_def new_def)

text \<open>
  C9. \<open>validate_items\<close> returns the session context it was given, unchanged, and its result
  depends on the context only through the value stored under \<open>menu_items\<close> in the
  scratchpad: two contexts that agree there give the same result for the same lines
  (and the same validator).
\<close>

theorem validate_items_frame:
  "snd (validate_items ratio thr ordered_items ctx) = ctx \<and>
   (scratchpad (state ctx) ''menu_items'' = scratchpad (state ctx') ''menu_items'' \<longrightarrow>
      fst (validate_items ratio thr ordered_items ctx) = fst (validate_items ratio thr ordered_items ctx'))"
proof -
  have "cached_menu ctx = cached_menu ctx'"
    if "scratchpad (state ctx) ''menu_items'' = scratchpad (state ctx') ''menu_items''"
    using that by (simp add: cached_menu_def get_def)
  then show ?thesis
    by (auto simp: validate_items_def Let_def split: prod.splits)
qed

text \<open>
  A context that differs in history, turn count, timestamps, step, done flag and phone,
  with the same cached menu, gives the same result.
\<close>

theorem validate_items_frame_witness:
  "snd (validate_items wings_ratio (7/10) [''chicken'', ''pizza''] wings_ctx_later) = wings_ctx_later \<and>
   wings_ctx_later \<noteq> wings_ctx \<and>
   fst (validate_items wings_ratio (7/10) [''chicken'', ''pizza''] wings_ctx_later)
     = fst (validate_items wings_ratio (7/10) [''chicken'', ''pizza''] wings_ctx)"
proof -
  have same: "scratchpad (state wings_ctx_later) ''menu_items'' = scratchpad (state wings_ctx) ''menu_items''"
    by (simp add: wings_ctx_later_def Let_def append_user_message_def touch_def)
  have "session_done (state wings_ctx_later) \<noteq> session_done (state wings_ctx)"
    by (simp add: wings_ctx_later_def Let_def wings_ctx_def new_def)
  then have diff: "wings_ctx_later \<noteq> wings_ctx" by auto
  from validate_items_frame [of wings_ratio "7/10" "[''chicken'', ''pizza'']" wings_ctx_later wings_ctx]
    same diff show ?thesis by blast
qed

section \<open>Facts about the handlers and the turn\<close>

lemma validate_items_ctx: "validate_items r t xs ctx = (res, c1) \<Longrightarrow> c1 = ctx"
  by (auto simp: validate_items_def Let_def split: prod.splits if_splits)

lemma set_scratchpad_simps [simp]:
  "session (set_scratchpad ctx k v) = session ctx"
  "short_term (set_scratchpad ctx k v) = short_term ctx"
  "session_done (state (set_scratchpad ctx k v)) = session_done (state ctx)"
  "flow (state (set_scratchpad ctx k v)) = flow (state ctx)"
  "step (state (set_scratchpad ctx k v)) = step (state ctx)"
  "scratchpad (state (set_scratchpad ctx k v)) = (scratchpad (state ctx))(k \<mapsto> v)"
  by (simp_all add: set_scratchpad_def)

lemma set_step_simps [simp]:
  "session (set_step ctx s) = session ctx"
  "short_term (set_step ctx s) = short_term ctx"
  "session_done (state (set_step ctx s)) = session_done (state ctx)"
  "flow (state (set_step ctx s)) = flow (state ctx)"
  "step (state (set_step ctx s)) = Some s"
  "scratchpad (state (set_step ctx s)) = scratchpad (state ctx)"
  by (simp_all add: set_step_def)










lemma append_user_message_simps [simp]:
  "history (short_term (append_user_message ctx txt ts))
     = history (short_term ctx) @ [\<lparr> role = User, msg_text = txt, timestamp = ts \<rparr>]"
  "turn_count (short_term (append_user_message ctx txt ts)) = turn_count (short_term ctx) + 1"
  "state (append_user_message ctx txt ts) = state ctx"
  "channel (session (append_user_message ctx txt ts)) = channel (session ctx)"
  "user_id (session (append_user_message ctx txt ts)) = user_id (session ctx)"
  "session_id (session (append_user_message ctx txt ts)) = session_id (session ctx)"
  by (simp_all add: append_user_message_def touch_def Let_def)




lemma validate_items_menu_only:
  "cached_menu c = cached_menu c' \<Longrightarrow>
     fst (validate_items r t xs c) = fst (validate_items r t xs c')"
  by (auto simp: validate_items_def Let_def split: prod.splits)

lemma cached_menu_set_step [simp]: "cached_menu (set_step c s) = cached_menu c"
  by (simp add: cached_menu_def)

lemma cached_menu_flow [simp]:
  "cached_menu (c\<lparr> state := (state c)\<lparr> flow := f \<rparr> \<rparr>) = cached_menu c"
  by (simp add: cached_menu_def)

lemma route_intent_place_order:
  "intent idata = ''place_order'' \<Longrightarrow>
   route_intent core w idata ctx =
     (let ctx0 = (if flow (state ctx) = None
                  then ctx\<lparr> state := (state ctx)\<lparr> flow := Some ''food_order'' \<rparr> \<rparr> else ctx);
          (r, ctx1) = handle_order core w idata (set_step ctx0 ''order'')
      in case r of Inl e \<Rightarrow> (Inl e, ctx1)
         | Inr rt \<Rightarrow> (Inr (rt, session_done (state ctx1)), ctx1))"
  by (simp add: route_intent_def)

lemma cached_fries: "cached_menu fries_ctx = VItems [MenuStr ''Fries'']"
  by (simp add: fries_ctx_def cached_menu_def get_def or_val_def)

lemma validate_fries:
  "fst (validate_items r t [''fries''] fries_ctx) = Inr ([MenuStr ''Fries''], [])"
  by (simp add: validate_items_def cached_fries Let_def match_line_def norm_simps wings_names)

lemma core0_simps [simp]:
  "sm_ratio core0 = wings_ratio" "fuzzy_threshold core0 = 7/10" "store_ttl core0 = timedelta_minutes 60"
  "menu_url (n8n core0) = Some ''https://n8n.example/menu''"
  "phone_url (n8n core0) = Some ''https://n8n.example/phone''"
  "order_url (n8n core0) = Some ''https://n8n.example/order''"
  by (simp_all add: core0_def)

lemma order_world_port: "place_order (n8n core0) (http_post order_world) pl = Inr no_keys"
  by (simp add: place_order_def post_def order_world_def)

lemma order_idata_simps [simp]:
  "intent order_idata = ''place_order''" "items order_idata = [''fries'']"
  "intent_notes order_idata = None"
  by (simp_all add: order_idata_def)

lemma picky_port:
  "place_order (n8n core0) (http_post picky_world) (order_payload fries_ctx order_idata [MenuStr ''Fries''])
     = Inr no_keys"
  "place_order (n8n core0) (http_post picky_world) [] = Inl HTTPStatusError"
  by (simp_all add: place_order_def post_def picky_world_def order_payload_def)













lemma req0_simps [simp]:
  "req_channel req0 = ''web''" "req_user_id req0 = ''u1''" "req_session_id req0 = ''s1''"
  "req_text req0 = ''fries please''"
  by (simp_all add: req0_def)

lemma world_clocks [simp]:
  "clock_handle chat_world = 20" "clock_load chat_world = 21"
  "clock_handle failing_world = 30" "clock_load failing_world = 31"
  by (simp_all add: chat_world_def failing_world_def)





section \<open>Properties of the dispatcher and the turn\<close>

text \<open>
  C1, as the code has it. On a \<open>place_order\<close> turn in which no extracted item is unknown and
  the order webhook answers the payload the handler sends for the matched items (with or
  without \<open>order_id\<close>), the dispatcher stores the answer's \<open>order_id\<close> (\<open>None\<close> when it is
  missing) and the matched items in the scratchpad, sets the done flag, returns it as
  true, and replies with the order confirmation, which names a reference ID only when the
  \<open>order_id\<close> is truthy. There is no reply that asks to try again.
\<close>

theorem order_confirmed_with_or_without_id:
  assumes pl: "intent idata = ''place_order''"
      and ok: "fst (validate_items (sm_ratio core) (fuzzy_threshold core) (items idata) ctx) = Inr (valid, [])"
      and port: "place_order (n8n core) (http_post w) (order_payload ctx idata valid) = Inr data"
  shows "fst (route_intent core w idata ctx)
           = Inr (OrderPlaced (if truthy (resp_order_id data) then Some (resp_order_id data) else None)
                              (if truthy (resp_eta data) then Some (resp_eta data) else None), True) \<and>
         session_done (state (snd (route_intent core w idata ctx))) \<and>
         scratchpad (state (snd (route_intent core w idata ctx))) ''last_order_id'' = Some (resp_order_id data) \<and>
         scratchpad (state (snd (route_intent core w idata ctx))) ''last_order_items'' = Some (VItems valid)"
proof -
  let ?ctx0 = "if flow (state ctx) = None
                  then ctx\<lparr> state := (state ctx)\<lparr> flow := Some ''food_order'' \<rparr> \<rparr> else ctx"
  let ?c = "set_step ?ctx0 ''order''"
  have cm: "cached_menu ?c = cached_menu ctx" by simp
  have v: "validate_items (sm_ratio core) (fuzzy_threshold core) (items idata) ?c = (Inr (valid, []), ?c)"
    using validate_items_menu_only [OF cm, of "sm_ratio core" "fuzzy_threshold core" "items idata"] ok
      validate_items_ctx [of "sm_ratio core" "fuzzy_threshold core" "items idata" ?c]
    by (cases "validate_items (sm_ratio core) (fuzzy_threshold core) (items idata) ?c") auto
  have same: "order_payload ?c idata valid = order_payload ctx idata valid"
    by (simp add: order_payload_def)
  have port': "place_order (n8n core) (http_post w)
        [(''session_id'', VStr (session_id (session ?c))),
         (''user_id'', VStr (user_id (session ?c))),
         (''intent'', VStr ''place_order''),
         (''items'', VItems valid),
         (''notes'', opt_str (intent_notes idata)),
         (''phone'', get (scratchpad (state ?c)) ''phone''),
         (''address'', get (scratchpad (state ?c)) ''address'')] = Inr data"
    using port same by (simp add: order_payload_def)
  have ho: "handle_order core w idata ?c =
      (Inr (OrderPlaced (if truthy (resp_order_id data) then Some (resp_order_id data) else None)
                        (if truthy (resp_eta data) then Some (resp_eta data) else None)),
       (set_scratchpad (set_scratchpad ?c ''last_order_id'' (resp_order_id data))
           ''last_order_items'' (VItems valid))
         \<lparr> state := (state (set_scratchpad (set_scratchpad ?c ''last_order_id'' (resp_order_id data))
           ''last_order_items'' (VItems valid)))\<lparr> session_done := True \<rparr> \<rparr>)"
    unfolding handle_order_def Let_def v using port' by simp
  show ?thesis
    unfolding route_intent_place_order [OF pl] Let_def ho by simp
qed

text \<open>
  The menu lists "Fries", the order is "fries", and the order webhook answers the payload
  that orders this dish with a JSON object without \<open>order_id\<close>, and any other payload with
  an HTTP error status.
\<close>

theorem order_confirmed_with_or_without_id_witness:
  "place_order (n8n core0) (http_post picky_world) [] = Inl HTTPStatusError \<and>
   fst (route_intent core0 picky_world order_idata fries_ctx) = Inr (OrderPlaced None None, True) \<and>
   session_done (state (snd (route_intent core0 picky_world order_idata fries_ctx))) \<and>
   scratchpad (state (snd (route_intent core0 picky_world order_idata fries_ctx))) ''last_order_id'' = Some VNone \<and>
   scratchpad (state (snd (route_intent core0 picky_world order_idata fries_ctx))) ''last_order_items''
     = Some (VItems [MenuStr ''Fries''])"
proof -
  have pl: "intent order_idata = ''place_order''" by simp
  have ok: "fst (validate_items (sm_ratio core0) (fuzzy_threshold core0) (items order_idata) fries_ctx)
              = Inr ([MenuStr ''Fries''], [])"
    by (simp add: validate_fries)
  from order_confirmed_with_or_without_id [OF pl ok picky_port(1)]
  show ?thesis by (simp add: no_keys_def picky_port(2))
qed

text \<open>
  C1 as stated fails there: every item matches, the answer lacks \<open>order_id\<close>, and the
  dispatcher replies with the order confirmation and returns done as true.
\<close>

theorem missing_order_id_still_done:
  "fst (validate_items (sm_ratio core0) (fuzzy_threshold core0) (items order_idata) fries_ctx)
     = Inr ([MenuStr ''Fries''], []) \<and>
   place_order (n8n core0) (http_post order_world) [] = Inr no_keys \<and>
   resp_order_id no_keys = VNone \<and>
   fst (route_intent core0 order_world order_idata fries_ctx) = Inr (OrderPlaced None None, True) \<and>
   session_done (state (snd (route_intent core0 order_world order_idata fries_ctx)))"
proof -
  let ?c = "set_step (fries_ctx\<lparr> state := (state fries_ctx)\<lparr> flow := Some ''food_order'' \<rparr> \<rparr>) ''order''"
  have fl: "flow (state fries_ctx) = None" by (simp add: fries_ctx_def new_def)
  have cm: "cached_menu ?c = cached_menu fries_ctx" by simp
  have v: "validate_items wings_ratio (7/10) [''fries''] ?c = (Inr ([MenuStr ''Fries''], []), ?c)"
    using validate_items_menu_only [OF cm, of wings_ratio "7/10" "[''fries'']"] validate_fries [of wings_ratio "7/10"]
      validate_items_ctx [of wings_ratio "7/10" "[''fries'']" ?c]
    by (cases "validate_items wings_ratio (7/10) [''fries''] ?c") auto
  have ho: "fst (handle_order core0 order_world order_idata ?c) = Inr (OrderPlaced None None)"
           "session_done (state (snd (handle_order core0 order_world order_idata ?c)))"
    unfolding handle_order_def Let_def by (simp_all add: v order_world_port no_keys_def)
  have ri: "route_intent core0 order_world order_idata fries_ctx =
      (case fst (handle_order core0 order_world order_idata ?c) of
         Inl e \<Rightarrow> (Inl e, snd (handle_order core0 order_world order_idata ?c))
       | Inr rt \<Rightarrow> (Inr (rt, session_done (state (snd (handle_order core0 order_world order_idata ?c)))),
                    snd (handle_order core0 order_world order_idata ?c)))"
    by (simp add: route_intent_place_order Let_def fl split_beta)
  show ?thesis
    by (simp add: ri ho validate_fries order_world_port no_keys_def)
qed

text \<open>
  C2 fails on the code. A first turn is read as \<open>get_menu\<close> and the menu webhook answers
  with an HTTP error status: \<open>raise_for_status\<close> raises in \<open>_post\<close>, nothing between
  there and \<open>handle\<close> catches it, and \<open>handle\<close> raises instead of returning a response.
\<close>

theorem handle_raises_on_http_error:
  "fst (handle core0 failing_world Map.empty req0) = Inl HTTPStatusError"
  by (simp add: handle_def resolve_session_def load_def key_def req0_def failing_world_def Let_def
        handle_steps_def route_intent_def handle_get_menu_def get_menu_def post_def split_beta)





end
